theory Spec2Isabelle
  imports Complex_Main "HOL-Library.Sublist"
begin

section \<open>Conventions of the embedding\<close>

text \<open>
  The front end is TypeScript. A finite JavaScript number is modelled as the
  \<^typ>\<open>real\<close> that is its exact value. Where the code computes with numbers (it
  multiplies, adds, subtracts or divides), every operation is rounded to the nearest
  double with \<open>dbl\<close>, and a decimal literal \<open>0.7\<close> of the source is \<open>dbl 0.7\<close>.
  \<open>calculateOverallRisk\<close> only compares its arguments and takes their maximum, both of
  which are exact; it is stated on the decimals that its literals denote. \<open>NaN\<close> and the
  infinities are written out only where the code can produce them (the division of two
  counts, see \<open>jsnum\<close>). Counts and lengths are \<^typ>\<open>nat\<close>.

  A JavaScript string is a sequence of UTF-16 code units; the model keeps one
  \<^typ>\<open>char\<close> per code unit and so covers the code units below 256. \<open>length\<close> is then
  the \<open>.length\<close> of the source.
\<close>

section \<open>lib/utils: score aggregation\<close>

datatype risk_level = Low | Medium | High | Critical

record overall_risk =
  score :: real
  level :: risk_level

text \<open>
  \<^verbatim>\<open>calculateOverallRisk(harassmentScore, misogynyScore)\<close>: the maximum of the two scores
  and the first tier of the ordered threshold chain that it falls under.
\<close>

definition calculateOverallRisk :: "real \<Rightarrow> real \<Rightarrow> overall_risk" where
  "calculateOverallRisk harassmentScore misogynyScore =
     (let combined = max harassmentScore misogynyScore in
      if combined < 0.3 then \<lparr>score = combined, level = Low\<rparr>
      else if combined < 0.6 then \<lparr>score = combined, level = Medium\<rparr>
      else if combined < 0.8 then \<lparr>score = combined, level = High\<rparr>
      else \<lparr>score = combined, level = Critical\<rparr>)"

section \<open>Double-precision arithmetic\<close>

text \<open>
  \<open>dbl x\<close> is the IEEE 754 binary64 number nearest to \<open>x\<close>, ties going to the even
  significand. \<open>normalise\<close> scales the magnitude by powers of two until it lies in
  \<open>[2^52, 2^53)\<close>, or until the exponent reaches that of the subnormal numbers; the
  scaled magnitude is then rounded to an integer. The fuel covers every exponent of the
  format. Magnitudes from \<open>2^1024\<close> on, which overflow to an infinity, are not modelled.
\<close>

definition pow2 :: "int \<Rightarrow> real" where
  "pow2 e = (if e \<ge> 0 then 2 ^ nat e else 1 / 2 ^ nat (- e))"

fun normalise :: "nat \<Rightarrow> real \<Rightarrow> int \<Rightarrow> real \<times> int" where
  "normalise 0 m e = (m, e)"
| "normalise (Suc k) m e =
     (if m \<ge> 2 ^ 53 then normalise k (m / 2) (e + 1)
      else if m < 2 ^ 52 \<and> e > - 1074 then normalise k (m * 2) (e - 1)
      else (m, e))"

definition round_half_even :: "real \<Rightarrow> int" where
  "round_half_even m =
     (let f = \<lfloor>m\<rfloor>; d = m - of_int f in
      if d < 1 / 2 then f else if d > 1 / 2 then f + 1
      else if even f then f else f + 1)"

definition dbl :: "real \<Rightarrow> real" where
  "dbl x =
     (if x = 0 then 0
      else case normalise 2200 \<bar>x\<bar> 0 of
             (m, e) \<Rightarrow> sgn x * of_int (round_half_even m) * pow2 e)"

section \<open>JavaScript strings\<close>

text \<open>
  \<open>String.prototype.trim\<close> strips white space and line terminators from both ends. Of
  the code units below 256 these are TAB, LF, VT, FF, CR, SPACE and NO-BREAK SPACE.
\<close>

definition isWhiteSpace :: "char \<Rightarrow> bool" where
  "isWhiteSpace c \<longleftrightarrow>
     c \<in> {CHR 0x09, CHR 0x0A, CHR 0x0B, CHR 0x0C, CHR 0x0D, CHR 0x20, CHR 0xA0}"

definition trim :: "string \<Rightarrow> string" where
  "trim s = rev (dropWhile isWhiteSpace (rev (dropWhile isWhiteSpace s)))"

text \<open>The decimal numeral of a non-negative integer, as a template literal prints it.\<close>

fun show_nat :: "nat \<Rightarrow> string" where
  "show_nat n =
     (if n < 10 then [''0123456789'' ! n]
      else show_nat (n div 10) @ [''0123456789'' ! (n mod 10)])"

text \<open>
  \<open>toLowerCase\<close> on one code unit below 256: the ASCII capitals and the Latin-1 capitals
  (\<open>0xC0\<close>--\<open>0xDE\<close> without the multiplication sign \<open>0xD7\<close>) move up by 32.
\<close>

definition toLowerChar :: "char \<Rightarrow> char" where
  "toLowerChar c =
     (let n = (of_char c :: nat) in
      if (65 \<le> n \<and> n \<le> 90) \<or> (192 \<le> n \<and> n \<le> 222 \<and> n \<noteq> 215)
      then char_of (n + 32) else c)"

definition toLowerCase :: "string \<Rightarrow> string" where
  "toLowerCase s = map toLowerChar s"

text \<open>\<open>s.includes(sub)\<close>: \<open>sub\<close> occurs in \<open>s\<close> as a contiguous run.\<close>

fun js_includes :: "string \<Rightarrow> string \<Rightarrow> bool" where
  "js_includes [] sub = (sub = [])"
| "js_includes (c # cs) sub = (prefix sub (c # cs) \<or> js_includes cs sub)"

text \<open>\<open>s.split(sep)\<close> for a one-character separator: never an empty array.\<close>

fun split_on :: "char \<Rightarrow> string \<Rightarrow> string list" where
  "split_on sep [] = [[]]"
| "split_on sep (c # cs) =
     (if c = sep then [] # split_on sep cs
      else (case split_on sep cs of
              [] \<Rightarrow> [[c]]
            | seg # segs \<Rightarrow> (c # seg) # segs))"

text \<open>\<open>xs.join(sep)\<close>.\<close>

fun join :: "string \<Rightarrow> string list \<Rightarrow> string" where
  "join sep [] = []"
| "join sep [x] = x"
| "join sep (x # y # ys) = x @ sep @ join sep (y # ys)"

section \<open>lib/utils: input validation\<close>

record validation =
  isValid :: bool
  error :: "string option"

text \<open>
  \<^verbatim>\<open>validateTextInput(text, maxLength = 500)\<close>. The emptiness test looks at the trimmed
  text, the length test at the text as given. \<open>maxLength\<close> is a non-negative integer
  (the configured \<open>MAX_TEXT_LENGTH\<close> is 500).
\<close>

definition validateTextInput :: "string \<Rightarrow> nat \<Rightarrow> validation" where
  "validateTextInput txt maxLength =
     (if trim txt = [] then
        \<lparr>isValid = False, error = Some ''Text cannot be empty''\<rparr>
      else if length txt > maxLength then
        \<lparr>isValid = False,
         error = Some (''Text must be '' @ show_nat maxLength @ '' characters or less'')\<rparr>
      else \<lparr>isValid = True, error = None\<rparr>)"

definition MAX_TEXT_LENGTH :: nat where
  "MAX_TEXT_LENGTH = 500"

section \<open>The response of the analysis endpoint\<close>

record ToxicityScores =
  harassment :: real
  misogyny :: real
  combined :: real

text \<open>
  \<open>AnalyzeTextResponse\<close> of \<open>types/api\<close>, with the fields the components read (the field
  names carry the prefix \<open>resp_\<close>).
\<close>

record AnalyzeTextResponse =
  resp_text :: string
  resp_toxicity_scores :: ToxicityScores
  resp_is_toxic :: bool
  resp_is_harassment :: bool
  resp_riskLevel :: risk_level
  resp_flagged_categories :: "string list"

definition riskLevel_str :: "risk_level \<Rightarrow> string" where
  "riskLevel_str l =
     (case l of Low \<Rightarrow> ''low'' | Medium \<Rightarrow> ''medium'' | High \<Rightarrow> ''high''
      | Critical \<Rightarrow> ''critical'')"

text \<open>
  An awaited call either resolves with a value or rejects; \<open>Rejects msg\<close> carries
  \<open>err.message\<close>, the empty string standing for a missing one (both are falsy).
\<close>

datatype 'a outcome = Resolves 'a | Rejects string

record toast =
  title :: string
  description :: string
  destructive :: bool

section \<open>components/TextAnalysisDemo\<close>

record text_demo =
  td_text :: string
  td_isAnalyzing :: bool
  td_result :: "AnalyzeTextResponse option"
  td_error :: "string option"
  td_toasts :: "toast list"

text \<open>
  \<^verbatim>\<open>handleAnalyze\<close>. The backend is a parameter: what \<open>apiClient.post('/api/analyze', ...)\<close>
  does with the posted text. The second component of the result is the list of texts
  posted to \<open>/api/analyze\<close> during the call, in order.
\<close>

definition handleAnalyze ::
  "(string \<Rightarrow> AnalyzeTextResponse outcome) \<Rightarrow> text_demo \<Rightarrow> text_demo \<times> string list" where
  "handleAnalyze api s =
     (let validation = validateTextInput (td_text s) 500 in
      if \<not> isValid validation then
        (s\<lparr>td_error := Some (case error validation of
                               None \<Rightarrow> ''Invalid input''
                             | Some e \<Rightarrow> if e = [] then ''Invalid input'' else e)\<rparr>, [])
      else
        let s1 = s\<lparr>td_isAnalyzing := True, td_error := None, td_result := None\<rparr>;
            body = trim (td_text s)
        in (case api body of
              Resolves response \<Rightarrow>
                let s2 = s1\<lparr>td_result := Some response\<rparr>;
                    s3 = (if resp_riskLevel response = High \<or> resp_riskLevel response = Critical
                          then s2\<lparr>td_toasts := td_toasts s2 @
                                 [\<lparr>title = ''High Risk Content Detected'',
                                   description = ''Risk level: '' @
                                     (if resp_riskLevel response = High then ''HIGH''
                                      else ''CRITICAL''),
                                   destructive = True\<rparr>]\<rparr>
                          else s2)
                in (s3\<lparr>td_isAnalyzing := False\<rparr>, [body])
            | Rejects msg \<Rightarrow>
                let errorMessage =
                      (if msg = [] then ''Failed to analyze text. Please try again.'' else msg);
                    s2 = s1\<lparr>td_error := Some errorMessage,
                            td_toasts := td_toasts s1 @
                              [\<lparr>title = ''Analysis Failed'', description = errorMessage,
                                destructive = True\<rparr>]\<rparr>
                in (s2\<lparr>td_isAnalyzing := False\<rparr>, [body])))"

section \<open>components/HarassmentDetectionDemo\<close>

text \<open>
  The demo does not read the response of the endpoint: it builds a simulated result from
  three draws of \<open>Math.random()\<close> (taken in the order harassment, misogyny, toxicity) and
  from keywords of the lower-cased text. The draws, doubles in \<open>[0, 1)\<close> that differ
  from call to call, are parameters of the model.
\<close>

record platform_scores =
  harassment_score :: real
  misogyny_score :: real
  toxicity_score :: real

record platform_verdict = platform_scores +
  is_harassment :: bool
  is_toxic :: bool

record PlatformResult =
  platform :: string
  ptext :: string
  result :: platform_verdict
  isFlagged :: bool

definition simulatedResult :: "string \<Rightarrow> real \<Rightarrow> real \<Rightarrow> real \<Rightarrow> platform_scores" where
  "simulatedResult t r1 r2 r3 =
     \<lparr>harassment_score =
        min (dbl (dbl (r1 * (if js_includes (toLowerCase t) ''bitch'' then dbl 0.7
                             else dbl 0.4)) +
                  (if js_includes (toLowerCase t) ''hate'' then dbl 0.3 else 0))) 1,
      misogyny_score =
        min (dbl (r2 * (if js_includes (toLowerCase t) ''woman'' \<or>
                           js_includes (toLowerCase t) ''girl'' then dbl 0.6 else dbl 0.2))) 1,
      toxicity_score =
        min (dbl (r3 * (if js_includes (toLowerCase t) ''stupid'' \<or>
                           js_includes (toLowerCase t) ''idiot'' then dbl 0.5 else dbl 0.3))) 1\<rparr>"

text \<open>The \<open>newResult\<close> object of \<^verbatim>\<open>analyzeText\<close>, with its \<open>threshold = 0.7\<close>.\<close>

definition newResult :: "string \<Rightarrow> string \<Rightarrow> real \<Rightarrow> real \<Rightarrow> real \<Rightarrow> PlatformResult" where
  "newResult selectedPlatform t r1 r2 r3 =
     (let sim = simulatedResult t r1 r2 r3;
          threshold = dbl 0.7;
          flagged = (harassment_score sim \<ge> threshold \<or> misogyny_score sim \<ge> threshold \<or>
                     toxicity_score sim \<ge> threshold)
      in \<lparr>platform = selectedPlatform,
          ptext = t,
          result = \<lparr>harassment_score = harassment_score sim,
                     misogyny_score = misogyny_score sim,
                     toxicity_score = toxicity_score sim,
                     is_harassment = (harassment_score sim \<ge> threshold),
                     is_toxic = (toxicity_score sim \<ge> threshold)\<rparr>,
          isFlagged = flagged\<rparr>)"

text \<open>
  What the \<open>fetch\<close> of \<open>/api/analyze\<close> does: it answers with \<open>response.ok\<close>, answers
  without it (the code then throws), or fails itself (network error, unreadable body).
\<close>

datatype fetch_outcome = FetchOk | FetchNotOk | FetchFails

record demo_state =
  hd_text :: string
  hd_isAnalyzing :: bool
  hd_results :: "PlatformResult list"
  hd_selectedPlatform :: string
  hd_toasts :: "toast list"

definition analyzeText :: "fetch_outcome \<Rightarrow> real \<times> real \<times> real \<Rightarrow> demo_state \<Rightarrow> demo_state" where
  "analyzeText fo rnd s =
     (if trim (hd_text s) = [] then
        s\<lparr>hd_toasts := hd_toasts s @
             [\<lparr>title = ''Empty Text'', description = ''Please enter some text to analyze.'',
               destructive = True\<rparr>]\<rparr>
      else
        (case fo of
           FetchOk \<Rightarrow>
             (case rnd of (r1, r2, r3) \<Rightarrow>
                let r = newResult (hd_selectedPlatform s) (hd_text s) r1 r2 r3;
                    s1 = s\<lparr>hd_isAnalyzing := True\<rparr>;
                    s2 = s1\<lparr>hd_results := r # hd_results s\<rparr>;
                    s3 = s2\<lparr>hd_toasts := hd_toasts s2 @
                           [if isFlagged r
                            then \<lparr>title = ''Content Flagged'',
                                  description =
                                    ''This content contains potentially harmful language.'',
                                  destructive = True\<rparr>
                            else \<lparr>title = ''Content Analyzed'',
                                  description = ''No harmful content detected.'',
                                  destructive = False\<rparr>]\<rparr>
                in s3\<lparr>hd_isAnalyzing := False\<rparr>)
         | _ \<Rightarrow>
             s\<lparr>hd_isAnalyzing := False,
               hd_toasts := hd_toasts s @
                 [\<lparr>title = ''Analysis Failed'',
                   description = ''Could not analyze the content. Please try again.'',
                   destructive = True\<rparr>]\<rparr>))"

section \<open>components/BatchAnalysisDemo\<close>

text \<open>
  A slot of the \<open>texts\<close> array. The handlers are written for an array of strings; the
  other two constructors are what JavaScript leaves behind when \<open>newTexts[index] = v\<close>
  writes past the end (the array grows, the slots in between stay empty) and when a
  spread \<open>[...texts]\<close> copies an empty slot (it becomes \<open>undefined\<close>).
\<close>

datatype slot = Str string | Undefined | Hole

definition spread :: "slot list \<Rightarrow> slot list" where
  "spread xs = map (\<lambda>x. if x = Hole then Undefined else x) xs"

record batch_demo =
  bd_texts :: "slot list"
  bd_isAnalyzing :: bool
  bd_results :: "AnalyzeTextResponse list"
  bd_error :: "string option"
  bd_toasts :: "toast list"

text \<open>\<open>useState(['']) ... useState(false) ... useState([]) ... useState(null)\<close>\<close>

definition batch_demo_init :: batch_demo where
  "batch_demo_init =
     \<lparr>bd_texts = [Str []], bd_isAnalyzing = False, bd_results = [], bd_error = None,
      bd_toasts = []\<rparr>"

definition addTextBox :: "batch_demo \<Rightarrow> batch_demo" where
  "addTextBox s =
     (if length (bd_texts s) < 10 then s\<lparr>bd_texts := spread (bd_texts s) @ [Str []]\<rparr>
      else s)"

text \<open>\<open>texts.filter((_, i) => i !== index)\<close>; \<open>filter\<close> does not visit empty slots.\<close>

definition removeTextBox :: "nat \<Rightarrow> batch_demo \<Rightarrow> batch_demo" where
  "removeTextBox index s =
     (if length (bd_texts s) > 1 then
        s\<lparr>bd_texts := map snd (filter (\<lambda>(i, x). x \<noteq> Hole \<and> i \<noteq> index)
                                     (enumerate 0 (bd_texts s)))\<rparr>
      else s)"

definition updateText :: "nat \<Rightarrow> string \<Rightarrow> batch_demo \<Rightarrow> batch_demo" where
  "updateText index v s =
     (let newTexts = spread (bd_texts s) in
      s\<lparr>bd_texts :=
          (if index < length newTexts then newTexts[index := Str v]
           else newTexts @ replicate (index - length newTexts) Hole @ [Str v])\<rparr>)"

definition loadSampleData :: "batch_demo \<Rightarrow> batch_demo" where
  "loadSampleData s =
     s\<lparr>bd_texts :=
         [Str ''This is a normal, friendly comment.'',
          Str (''You'' @ [CHR 0x27] @ ''re such an idiot, you should just disappear.''),
          Str ''Great work on this project!'',
          Str (''Women don'' @ [CHR 0x27] @ ''t belong in tech, go back to the kitchen.''),
          Str ''I love this community, everyone is so helpful.'']\<rparr>"

definition clearAll :: "batch_demo \<Rightarrow> batch_demo" where
  "clearAll s = s\<lparr>bd_texts := [Str []], bd_results := [], bd_error := None\<rparr>"

text \<open>
  \<^verbatim>\<open>handleBatchAnalysis\<close>, the backend again a parameter. \<open>text.trim()\<close> on an
  \<open>undefined\<close> element throws before any state is set.
\<close>

definition validTexts :: "slot list \<Rightarrow> string list" where
  "validTexts xs = concat (map (\<lambda>x. case x of Str t \<Rightarrow> if length (trim t) > 0 then [t] else []
                                        | _ \<Rightarrow> []) xs)"

definition handleBatchAnalysis ::
  "(string list \<Rightarrow> AnalyzeTextResponse list outcome) \<Rightarrow> batch_demo \<Rightarrow> batch_demo" where
  "handleBatchAnalysis api s =
     (if Undefined \<in> set (bd_texts s) then s
      else if validTexts (bd_texts s) = [] then
        s\<lparr>bd_error := Some ''Please enter at least one text to analyze''\<rparr>
      else
        let s1 = s\<lparr>bd_isAnalyzing := True, bd_error := None, bd_results := []\<rparr> in
        (case api (validTexts (bd_texts s)) of
           Resolves rs \<Rightarrow>
             let toxicCount = length (filter (\<lambda>r. resp_riskLevel r = High \<or>
                                                  resp_riskLevel r = Critical) rs);
                 s2 = s1\<lparr>bd_results := rs\<rparr>;
                 s3 = s2\<lparr>bd_toasts := bd_toasts s2 @
                        [if toxicCount > 0
                         then \<lparr>title = ''Toxic Content Detected'',
                               description = ''Found '' @ show_nat toxicCount @
                                 '' potentially toxic items out of '' @ show_nat (length rs),
                               destructive = True\<rparr>
                         else \<lparr>title = ''Analysis Complete'',
                               description = ''All '' @ show_nat (length rs) @
                                 '' texts appear safe'',
                               destructive = False\<rparr>]\<rparr>
             in s3\<lparr>bd_isAnalyzing := False\<rparr>
         | Rejects msg \<Rightarrow>
             let errorMessage =
                   (if msg = [] then ''Failed to analyze texts. Please try again.'' else msg)
             in s1\<lparr>bd_error := Some errorMessage,
                    bd_toasts := bd_toasts s1 @
                      [\<lparr>title = ''Batch Analysis Failed'', description = errorMessage,
                        destructive = True\<rparr>],
                    bd_isAnalyzing := False\<rparr>))"

text \<open>
  The states of the component: what the handlers make of the initial state. The text
  areas are rendered from \<open>texts.map\<close>, so \<open>updateText\<close> is only ever called with the
  index of an existing box.
\<close>

inductive reachable :: "batch_demo \<Rightarrow> bool" where
  r_init: "reachable batch_demo_init"
| r_add: "reachable s \<Longrightarrow> reachable (addTextBox s)"
| r_remove: "reachable s \<Longrightarrow> reachable (removeTextBox index s)"
| r_update: "reachable s \<Longrightarrow> index < length (bd_texts s) \<Longrightarrow> reachable (updateText index v s)"
| r_load: "reachable s \<Longrightarrow> reachable (loadSampleData s)"
| r_clear: "reachable s \<Longrightarrow> reachable (clearAll s)"
| r_analyze: "reachable s \<Longrightarrow> reachable (handleBatchAnalysis api s)"

text \<open>The invariant of the \<open>texts\<close> array: only real entries, between one and ten of them.\<close>

definition texts_ok :: "slot list \<Rightarrow> bool" where
  "texts_ok xs \<longleftrightarrow> Hole \<notin> set xs \<and> 1 \<le> length xs \<and> length xs \<le> 10"

text \<open>
  \<^verbatim>\<open>exportResults\<close>: the text of the CSV blob, or nothing when there are no results (the
  handler returns before building one). \<open>num\<close> is how a template literal prints a
  number (\<open>Number::toString\<close>), a parameter of the model.
\<close>

definition dq :: string where
  "dq = [CHR 0x22]"

definition bool_str :: "bool \<Rightarrow> string" where
  "bool_str b = (if b then ''true'' else ''false'')"

definition export_row :: "(real \<Rightarrow> string) \<Rightarrow> AnalyzeTextResponse \<Rightarrow> string" where
  "export_row num r =
     dq @ resp_text r @ dq @ '','' @
     dq @ riskLevel_str (resp_riskLevel r) @ dq @ '','' @
     dq @ bool_str (resp_is_toxic r) @ dq @ '','' @
     dq @ num (harassment (resp_toxicity_scores r)) @ dq @ '','' @
     dq @ num (misogyny (resp_toxicity_scores r)) @ dq @ '','' @
     dq @ join '', '' (resp_flagged_categories r) @ dq"

definition export_header :: string where
  "export_header =
     ''Text,Risk Level,Is Toxic,Harassment Score,Misogyny Score,Flagged Categories''"

definition exportResults :: "(real \<Rightarrow> string) \<Rightarrow> AnalyzeTextResponse list \<Rightarrow> string option" where
  "exportResults num rs =
     (if length rs = 0 then None
      else Some (join [CHR 0x0A] (export_header # map (export_row num) rs)))"

section \<open>components/FileUploadDemo\<close>

subsection \<open>Numbers that a division can produce\<close>

text \<open>
  The quotient of two numbers is a finite number, an infinity or \<open>NaN\<close>; JavaScript
  raises no error on a zero divisor.
\<close>

datatype jsnum = Num real | PosInfinity | NegInfinity | NaN

definition js_div :: "real \<Rightarrow> real \<Rightarrow> jsnum" where
  "js_div a b =
     (if b \<noteq> 0 then Num (dbl (a / b))
      else if a = 0 then NaN
      else if a > 0 then PosInfinity else NegInfinity)"

text \<open>Multiplication by a positive finite constant.\<close>

definition js_times :: "jsnum \<Rightarrow> real \<Rightarrow> jsnum" where
  "js_times x k = (case x of Num v \<Rightarrow> Num (dbl (v * k)) | other \<Rightarrow> other)"

text \<open>
  \<open>x.toFixed(d)\<close>: the sign, then the integer \<open>n\<close> with \<open>n / 10^d\<close> nearest to \<open>|x|\<close> (the
  larger one on a tie) printed with \<open>d\<close> fractional digits; \<open>NaN\<close> and the infinities
  print their names. Here \<open>x\<close> is the exact value of the double, so the literal
  \<open>0.15\<close>, a double just below 0.15, prints as \<open>0.1\<close>. (Magnitudes from \<open>10^21\<close> on
  print in exponent notation; the model does not cover them.)
\<close>

definition pad_left :: "nat \<Rightarrow> string \<Rightarrow> string" where
  "pad_left d s = replicate (d - length s) (CHR ''0'') @ s"

definition fixed :: "nat \<Rightarrow> real \<Rightarrow> string" where
  "fixed d x =
     (let n = nat \<lfloor>x * 10 ^ d + 1 / 2\<rfloor> in
      show_nat (n div 10 ^ d) @
      (if d = 0 then [] else ''.'' @ pad_left d (show_nat (n mod 10 ^ d))))"

definition toFixed :: "nat \<Rightarrow> jsnum \<Rightarrow> string" where
  "toFixed d x =
     (case x of
        Num v \<Rightarrow> if v < 0 then ''-'' @ fixed d (- v) else fixed d v
      | PosInfinity \<Rightarrow> ''Infinity''
      | NegInfinity \<Rightarrow> ''-Infinity''
      | NaN \<Rightarrow> ''NaN'')"

subsection \<open>The job snapshot\<close>

datatype job_state = Queued | Processing | Completed | Failed

text \<open>
  \<open>BatchAnalysisStats\<close> and \<open>BatchAnalysisResult\<close> of \<open>types/api\<close>, with the fields the
  component reads. The component guards every statistics field with \<open>||\<close> or \<open>?.\<close>, so
  each may be missing.
\<close>

record BatchAnalysisStats =
  total_comments :: "real option"
  toxic_comments :: "real option"
  harassment_count :: "real option"
  harassment_percentage :: "real option"

record BatchAnalysisResult =
  jobId :: string
  status :: job_state
  progress :: nat
  results :: "AnalyzeTextResponse list option"
  statistics :: "BatchAnalysisStats option"
  job_error :: "string option"

text \<open>\<open>x || d\<close> on a number that may be missing: \<open>undefined\<close> and \<open>0\<close> are falsy.\<close>

definition num_or :: "real option \<Rightarrow> real \<Rightarrow> real" where
  "num_or x d = (case x of None \<Rightarrow> d | Some v \<Rightarrow> if v = 0 then d else v)"

record job_stats =
  st_total :: real
  st_toxic :: real
  st_safe :: real
  st_toxicPercentage :: string

text \<open>\<^verbatim>\<open>getJobStats\<close>; \<open>None\<close> is its \<open>null\<close>. An empty array is truthy.\<close>

definition getJobStats :: "BatchAnalysisResult option \<Rightarrow> job_stats option" where
  "getJobStats jobStatus =
     (case jobStatus of
        None \<Rightarrow> None
      | Some js \<Rightarrow>
          (case statistics js of
             Some stats \<Rightarrow>
               Some \<lparr>st_total = num_or (total_comments stats) 0,
                     st_toxic = num_or (harassment_count stats)
                                  (num_or (toxic_comments stats) 0),
                     st_safe = dbl (num_or (total_comments stats) 0 -
                                    num_or (harassment_count stats) 0),
                     st_toxicPercentage =
                       (case harassment_percentage stats of
                          None \<Rightarrow> ''0.0''
                        | Some p \<Rightarrow> toFixed 1 (Num p))\<rparr>
           | None \<Rightarrow>
               (case results js of
                  None \<Rightarrow> None
                | Some rs \<Rightarrow>
                    let harassmentCount =
                          length (filter (\<lambda>item. resp_is_harassment item \<or> resp_is_toxic item) rs);
                        totalCount = length rs
                    in Some \<lparr>st_total = real totalCount,
                             st_toxic = real harassmentCount,
                             st_safe = dbl (real totalCount - real harassmentCount),
                             st_toxicPercentage =
                               toFixed 1 (js_times (js_div (real harassmentCount)
                                                          (real totalCount)) 100)\<rparr>)))"

text \<open>
  \<^verbatim>\<open>getOverallStats\<close> of BatchAnalysisDemo, the sibling of the fallback above: it returns
  \<open>null\<close> for an empty result list before dividing by its length.
\<close>

record overall_stats =
  os_total :: nat
  os_toxic :: nat
  os_safe :: nat
  os_avgHarassment :: string
  os_avgMisogyny :: string

definition getOverallStats :: "AnalyzeTextResponse list \<Rightarrow> overall_stats option" where
  "getOverallStats rs =
     (if length rs = 0 then None
      else
        let toxicCount = length (filter resp_is_toxic rs) in
        Some \<lparr>os_total = length rs,
              os_toxic = toxicCount,
              os_safe = length rs - toxicCount,
              os_avgHarassment =
                toFixed 3
                  (js_div (foldl (\<lambda>sum r. dbl (sum + harassment (resp_toxicity_scores r))) 0 rs)
                          (real (length rs))),
              os_avgMisogyny =
                toFixed 3
                  (js_div (foldl (\<lambda>sum r. dbl (sum + misogyny (resp_toxicity_scores r))) 0 rs)
                          (real (length rs)))\<rparr>)"

subsection \<open>File selection\<close>

record js_file =
  file_name :: string
  file_size :: nat
  file_type :: string

text \<open>
  The state of the component, and with it the timer that \<^verbatim>\<open>startPolling\<close> sets up:
  whether the interval is still set, the status requests issued so far (their URLs), and
  how many of them have not been answered yet.
\<close>

record upload_demo =
  fu_file :: "js_file option"
  fu_isUploading :: bool
  fu_uploadProgress :: nat
  fu_jobStatus :: "BatchAnalysisResult option"
  fu_isPolling :: bool
  fu_error :: "string option"
  fu_toasts :: "toast list"
  fu_intervalActive :: bool
  fu_requests :: "string list"
  fu_pending :: nat

text \<open>\<open>'.' + name.split('.').pop()?.toLowerCase()\<close>\<close>

definition fileExtension :: "string \<Rightarrow> string" where
  "fileExtension nm =
     ''.'' @ (case rev (split_on (CHR ''.'') nm) of
                [] \<Rightarrow> ''undefined''
              | seg # segs \<Rightarrow> toLowerCase seg)"

definition MAX_FILE_SIZE :: nat where
  "MAX_FILE_SIZE = 10 * 1024 * 1024"

text \<open>\<^verbatim>\<open>handleFileSelect\<close>; the argument is \<open>event.target.files?.[0]\<close>.\<close>

definition handleFileSelect :: "js_file option \<Rightarrow> upload_demo \<Rightarrow> upload_demo" where
  "handleFileSelect selectedFile s =
     (case selectedFile of
        None \<Rightarrow> s
      | Some f \<Rightarrow>
          if fileExtension (file_name f) \<notin> set [''.txt'', ''.csv''] then
            s\<lparr>fu_error := Some ''Please select a .txt or .csv file''\<rparr>
          else if file_size f > 10 * 1024 * 1024 then
            s\<lparr>fu_error := Some ''File size must be less than 10MB''\<rparr>
          else s\<lparr>fu_file := Some f, fu_error := None\<rparr>)"

text \<open>The part of a name after its last dot, if it has a dot.\<close>

definition after_last_dot :: "string \<Rightarrow> string option" where
  "after_last_dot nm =
     (if CHR ''.'' \<in> set nm then Some (rev (takeWhile (\<lambda>c. c \<noteq> CHR ''.'') (rev nm)))
      else None)"

text \<open>What \<^verbatim>\<open>handleFileSelect\<close> tests before it takes a file.\<close>

definition accepted :: "js_file \<Rightarrow> bool" where
  "accepted f \<longleftrightarrow>
     fileExtension (file_name f) \<in> {''.txt'', ''.csv''} \<and> file_size f \<le> MAX_FILE_SIZE"

text \<open>The initial state of the component (no timer set).\<close>

definition upload_demo_init :: upload_demo where
  "upload_demo_init =
     \<lparr>fu_file = None, fu_isUploading = False, fu_uploadProgress = 0, fu_jobStatus = None,
      fu_isPolling = False, fu_error = None, fu_toasts = [],
      fu_intervalActive = False, fu_requests = [], fu_pending = 0\<rparr>"

subsection \<open>Polling the job status\<close>











section \<open>Properties\<close>

subsection \<open>Evaluating the rounding\<close>

lemma normalise_numeral:
  "normalise (numeral n) m e =
     (if m \<ge> 2 ^ 53 then normalise (pred_numeral n) (m / 2) (e + 1)
      else if m < 2 ^ 52 \<and> e > - 1074 then normalise (pred_numeral n) (m * 2) (e - 1)
      else (m, e))"
  by (simp add: numeral_eq_Suc)

lemmas dbl_eval = dbl_def normalise_numeral round_half_even_def pow2_def Let_def

lemma dbl_0: "dbl 0 = 0"
  by (simp add: dbl_def)

text \<open>The doubles behind the literals of the source and behind some draws.\<close>

lemma dbl_literals:
  "dbl 0.7 = 3152519739159347 / 4503599627370496"
  "dbl 0.4 = 3602879701896397 / 9007199254740992"
  "dbl 0.3 = 5404319552844595 / 18014398509481984"
  "dbl 0.6 = 5404319552844595 / 9007199254740992"
  "dbl 0.2 = 3602879701896397 / 18014398509481984"
  "dbl 0.5 = 1 / 2"
  "dbl 0.9 = 8106479329266893 / 9007199254740992"
  "dbl 0.1 = 3602879701896397 / 36028797018963968"
  "dbl 0.99 = 4458563631096791 / 4503599627370496"
  "dbl 0.5714285714285714 = 2573485501354569 / 4503599627370496"
  by (simp_all add: dbl_eval)

subsection \<open>Score aggregation\<close>

lemma calculateOverallRisk_score: "score (calculateOverallRisk h m) = max h m"
  by (simp add: calculateOverallRisk_def Let_def)

lemma calculateOverallRisk_level:
  "level (calculateOverallRisk h m) =
     (if max h m < 0.3 then Low else if max h m < 0.6 then Medium
      else if max h m < 0.8 then High else Critical)"
  by (simp add: calculateOverallRisk_def Let_def)

text \<open>
  C1. For every pair of harassment and misogyny scores in the unit square, the combined
  score returned by \<open>calculateOverallRisk\<close> is the larger of the two (so it is one of
  them and is below neither).
\<close>

theorem C1_combined_is_max:
  assumes "0 \<le> h" "h \<le> 1" "0 \<le> m" "m \<le> 1"
  shows "score (calculateOverallRisk h m) = max h m \<and>
         h \<le> score (calculateOverallRisk h m) \<and>
         m \<le> score (calculateOverallRisk h m) \<and>
         (score (calculateOverallRisk h m) = h \<or> score (calculateOverallRisk h m) = m) \<and>
         0 \<le> score (calculateOverallRisk h m) \<and> score (calculateOverallRisk h m) \<le> 1"
  using assms by (auto simp: calculateOverallRisk_score max_def)

theorem C1_combined_is_max_witness:
  "score (calculateOverallRisk 0.9 0.2) = 0.9 \<and> score (calculateOverallRisk 0.1 0.45) = 0.45"
  using C1_combined_is_max [of "0.9" "0.2"] C1_combined_is_max [of "0.1" "0.45"]
  by simp

text \<open>
  C2. For scores in the unit square the tier returned by \<open>calculateOverallRisk\<close> follows
  the ordered threshold table on the combined score \<open>c = max h m\<close>: \<open>Low\<close> exactly below
  0.3, \<open>Medium\<close> exactly on [0.3, 0.6), \<open>High\<close> exactly on [0.6, 0.8) and \<open>Critical\<close> exactly
  from 0.8 on; the eight boundary values of the table land as listed.
\<close>

theorem C2_risk_level_table:
  "(\<forall>h m. 0 \<le> h \<and> h \<le> 1 \<and> 0 \<le> m \<and> m \<le> 1 \<longrightarrow>
      (level (calculateOverallRisk h m) = Low \<longleftrightarrow> max h m < 0.3) \<and>
      (level (calculateOverallRisk h m) = Medium \<longleftrightarrow> 0.3 \<le> max h m \<and> max h m < 0.6) \<and>
      (level (calculateOverallRisk h m) = High \<longleftrightarrow> 0.6 \<le> max h m \<and> max h m < 0.8) \<and>
      (level (calculateOverallRisk h m) = Critical \<longleftrightarrow> 0.8 \<le> max h m)) \<and>
   level (calculateOverallRisk 0.0 0.0) = Low \<and>
   level (calculateOverallRisk 0.29 0.29) = Low \<and>
   level (calculateOverallRisk 0.3 0.3) = Medium \<and>
   level (calculateOverallRisk 0.59 0.59) = Medium \<and>
   level (calculateOverallRisk 0.6 0.6) = High \<and>
   level (calculateOverallRisk 0.79 0.79) = High \<and>
   level (calculateOverallRisk 0.8 0.8) = Critical \<and>
   level (calculateOverallRisk 1.0 1.0) = Critical"
  by (simp add: calculateOverallRisk_level)

theorem C2_risk_level_table_witness:
  "level (calculateOverallRisk 0.1 0.7) = High \<and> level (calculateOverallRisk 0.45 0.2) = Medium"
proof -
  have t: "\<forall>h m. 0 \<le> h \<and> h \<le> 1 \<and> 0 \<le> m \<and> m \<le> 1 \<longrightarrow>
      (level (calculateOverallRisk h m) = Low \<longleftrightarrow> max h m < 0.3) \<and>
      (level (calculateOverallRisk h m) = Medium \<longleftrightarrow> 0.3 \<le> max h m \<and> max h m < 0.6) \<and>
      (level (calculateOverallRisk h m) = High \<longleftrightarrow> 0.6 \<le> max h m \<and> max h m < 0.8) \<and>
      (level (calculateOverallRisk h m) = Critical \<longleftrightarrow> 0.8 \<le> max h m)"
    using C2_risk_level_table by blast
  have "level (calculateOverallRisk 0.1 0.7) = High"
    using t [rule_format, of "0.1" "0.7"] by simp
  moreover have "level (calculateOverallRisk 0.45 0.2) = Medium"
    using t [rule_format, of "0.45" "0.2"] by simp
  ultimately show ?thesis by simp
qed

subsection \<open>Input validation\<close>

lemma validateTextInput_isValid:
  "isValid (validateTextInput t n) \<longleftrightarrow> trim t \<noteq> [] \<and> length t \<le> n"
  by (simp add: validateTextInput_def)

lemma validateTextInput_error:
  "\<not> isValid (validateTextInput t n) \<Longrightarrow> error (validateTextInput t n) \<noteq> None"
  by (simp add: validateTextInput_def split: if_splits)

lemma handleAnalyze_invalid:
  "\<not> isValid (validateTextInput (td_text s) 500) \<Longrightarrow>
     snd (handleAnalyze api s) = [] \<and> td_error (fst (handleAnalyze api s)) \<noteq> None \<and>
     td_result (fst (handleAnalyze api s)) = td_result s"
  by (simp add: handleAnalyze_def Let_def)

lemma handleAnalyze_valid:
  "isValid (validateTextInput (td_text s) 500) \<Longrightarrow>
     snd (handleAnalyze api s) = [trim (td_text s)]"
  by (simp add: handleAnalyze_def Let_def split: outcome.splits)

text \<open>
  C4. \<open>validateTextInput\<close> accepts a text exactly when its trimmed form is non-empty and
  the length of the text is at most the maximum; a rejected text comes with an error
  message. \<open>handleAnalyze\<close> validates against the default maximum of 500 first: for a
  rejected text it posts nothing to the analysis endpoint, sets the error and leaves the
  result alone; for an accepted text it posts the trimmed text once.
\<close>

theorem C4_validation_before_inference:
  "(isValid (validateTextInput t n) \<longleftrightarrow> trim t \<noteq> [] \<and> length t \<le> n) \<and>
   (\<not> isValid (validateTextInput t n) \<longrightarrow> error (validateTextInput t n) \<noteq> None) \<and>
   (\<not> (trim (td_text s) \<noteq> [] \<and> length (td_text s) \<le> MAX_TEXT_LENGTH) \<longrightarrow>
      snd (handleAnalyze api s) = [] \<and> td_error (fst (handleAnalyze api s)) \<noteq> None \<and>
      td_result (fst (handleAnalyze api s)) = td_result s) \<and>
   (trim (td_text s) \<noteq> [] \<and> length (td_text s) \<le> MAX_TEXT_LENGTH \<longrightarrow>
      snd (handleAnalyze api s) = [trim (td_text s)])"
  using validateTextInput_isValid [of t n] validateTextInput_error [of t n]
    handleAnalyze_invalid [of s api] handleAnalyze_valid [of s api]
    validateTextInput_isValid [of "td_text s" 500]
  unfolding MAX_TEXT_LENGTH_def by blast

theorem C4_validation_before_inference_witness:
  "\<not> isValid (validateTextInput ''   '' 500) \<and>
   isValid (validateTextInput '' hello '' 500) \<and>
   error (validateTextInput (replicate 501 (CHR ''a'')) 500) \<noteq> None \<and>
   snd (handleAnalyze (\<lambda>t. Rejects [])
          \<lparr>td_text = replicate 501 (CHR ''a''), td_isAnalyzing = False, td_result = None,
           td_error = None, td_toasts = []\<rparr>) = [] \<and>
   snd (handleAnalyze (\<lambda>t. Rejects [])
          \<lparr>td_text = '' hello '', td_isAnalyzing = False, td_result = None,
           td_error = None, td_toasts = []\<rparr>) = [''hello'']"
proof -
  let ?long = "replicate 501 (CHR ''a'')"
  let ?api = "\<lambda>t::string. (Rejects [] :: AnalyzeTextResponse outcome)"
  let ?s1 = "\<lparr>td_text = ?long, td_isAnalyzing = False, td_result = None,
              td_error = None, td_toasts = []\<rparr>"
  let ?s2 = "\<lparr>td_text = '' hello '', td_isAnalyzing = False, td_result = None,
              td_error = None, td_toasts = []\<rparr>"
  have blank: "trim ''   '' = []" and hello: "trim '' hello '' = ''hello''"
    by (simp_all add: trim_def isWhiteSpace_def)
  have a: "\<not> isValid (validateTextInput ''   '' 500)"
    using C4_validation_before_inference [of "''   ''" 500 ?s1 ?api] blank by simp
  have b: "isValid (validateTextInput '' hello '' 500)"
    using C4_validation_before_inference [of "'' hello ''" 500 ?s2 ?api] hello by simp
  have c: "error (validateTextInput ?long 500) \<noteq> None"
    using C4_validation_before_inference [of ?long 500 ?s1 ?api] by simp
  have d: "snd (handleAnalyze ?api ?s1) = []"
    using C4_validation_before_inference [of ?long 500 ?s1 ?api]
    by (simp add: MAX_TEXT_LENGTH_def)
  have e: "snd (handleAnalyze ?api ?s2) = [''hello'']"
    using C4_validation_before_inference [of "'' hello ''" 500 ?s2 ?api] hello
    by (simp add: MAX_TEXT_LENGTH_def)
  from a b c d e show ?thesis by blast
qed

subsection \<open>The simulated verdict of HarassmentDetectionDemo\<close>

lemma toLowerCase_samples:
  "toLowerCase ''I HATE you Bitch'' = ''i hate you bitch''"
  "toLowerCase ''hate bitch'' = ''hate bitch''"
  "toLowerCase ''you are stupid'' = ''you are stupid''"
  "toLowerCase ''bitch'' = ''bitch''"
  "toLowerCase ''hello'' = ''hello''"
  by code_simp+

text \<open>The simulated scores at the inputs used below, rounded as the engine rounds them.\<close>

lemma sim_hate_09:
  "simulatedResult ''I HATE you Bitch'' (dbl 0.9) 0 0 =
     \<lparr>harassment_score = 4188347653454561 / 4503599627370496, misogyny_score = 0,
      toxicity_score = 0\<rparr>"
  by (simp add: simulatedResult_def toLowerCase_samples dbl_literals dbl_eval)

lemma sim_hate_01:
  "simulatedResult ''I HATE you Bitch'' (dbl 0.1) 0 0 =
     \<lparr>harassment_score = 3332663724254167 / 9007199254740992, misogyny_score = 0,
      toxicity_score = 0\<rparr>"
  by (simp add: simulatedResult_def toLowerCase_samples dbl_literals dbl_eval)

lemma sim_threshold:
  "simulatedResult ''hate bitch'' (dbl 0.5714285714285714) 0 0 =
     \<lparr>harassment_score = 3152519739159347 / 4503599627370496, misogyny_score = 0,
      toxicity_score = 0\<rparr>"
  by (simp add: simulatedResult_def toLowerCase_samples dbl_literals dbl_eval)

lemma sim_stupid:
  "simulatedResult ''you are stupid'' (dbl 0.2) (dbl 0.3) (dbl 0.99) =
     \<lparr>harassment_score = 1441151880758559 / 18014398509481984,
      misogyny_score = 1080863910568919 / 18014398509481984,
      toxicity_score = 4458563631096791 / 9007199254740992\<rparr>"
  by (simp add: simulatedResult_def toLowerCase_samples dbl_literals dbl_eval)

text \<open>
  For the text \<open>hate bitch\<close> and a first draw of 0.5714285714285714 the harassment
  score is the double 0.7 itself, which reaches the threshold.
\<close>

lemma newResult_threshold_hit:
  "harassment_score (result (newResult ''twitter'' ''hate bitch'' (dbl 0.5714285714285714) 0 0)) =
     dbl 0.7 \<and>
   is_harassment (result (newResult ''twitter'' ''hate bitch'' (dbl 0.5714285714285714) 0 0))"
  unfolding newResult_def Let_def sim_threshold dbl_literals(1) by simp

text \<open>
  C3 as stated fails on \<^verbatim>\<open>analyzeText\<close>: for the text \<open>I HATE you Bitch\<close> and a first
  draw of 0.9 the harassment score is 0.9299999999999999, at or above the threshold
  0.7, and yet \<open>is_toxic\<close> is false (and \<open>isFlagged\<close> is true).
\<close>

theorem C3_is_toxic_counterexample:
  "dbl 0.7 \<le> harassment_score (result (newResult ''twitter'' ''I HATE you Bitch'' (dbl 0.9) 0 0)) \<and>
   harassment_score (result (newResult ''twitter'' ''I HATE you Bitch'' (dbl 0.9) 0 0)) =
     4188347653454561 / 4503599627370496 \<and>
   \<not> is_toxic (result (newResult ''twitter'' ''I HATE you Bitch'' (dbl 0.9) 0 0)) \<and>
   isFlagged (newResult ''twitter'' ''I HATE you Bitch'' (dbl 0.9) 0 0)"
  unfolding newResult_def Let_def sim_hate_09 dbl_literals(1) by simp

text \<open>
  C3, amended. In the verdict built by \<^verbatim>\<open>analyzeText\<close>, \<open>is_toxic\<close> is true exactly when
  the toxicity score is at least the shared threshold 0.7 (and \<open>is_harassment\<close> exactly
  when the harassment score is); the flag that is true exactly when at least one of the
  three scores reaches the threshold is \<open>isFlagged\<close>.
\<close>

theorem C3_is_toxic_amended:
  "(is_toxic (result (newResult p t r1 r2 r3)) \<longleftrightarrow>
      dbl 0.7 \<le> toxicity_score (result (newResult p t r1 r2 r3))) \<and>
   (is_harassment (result (newResult p t r1 r2 r3)) \<longleftrightarrow>
      dbl 0.7 \<le> harassment_score (result (newResult p t r1 r2 r3))) \<and>
   (isFlagged (newResult p t r1 r2 r3) \<longleftrightarrow>
      dbl 0.7 \<le> harassment_score (result (newResult p t r1 r2 r3)) \<or>
      dbl 0.7 \<le> misogyny_score (result (newResult p t r1 r2 r3)) \<or>
      dbl 0.7 \<le> toxicity_score (result (newResult p t r1 r2 r3)))"
  by (simp add: newResult_def Let_def)

theorem C3_is_toxic_amended_witness:
  "\<not> is_toxic (result (newResult ''reddit'' ''you are stupid'' (dbl 0.2) (dbl 0.3) (dbl 0.99))) \<and>
   \<not> isFlagged (newResult ''reddit'' ''you are stupid'' (dbl 0.2) (dbl 0.3) (dbl 0.99))"
proof -
  let ?r = "newResult ''reddit'' ''you are stupid'' (dbl 0.2) (dbl 0.3) (dbl 0.99)"
  have "\<not> dbl 0.7 \<le> toxicity_score (result ?r) \<and>
        \<not> dbl 0.7 \<le> harassment_score (result ?r) \<and>
        \<not> dbl 0.7 \<le> misogyny_score (result ?r)"
    unfolding newResult_def Let_def sim_stupid dbl_literals(1) by simp
  then show ?thesis
    using C3_is_toxic_amended [of "''reddit''" "''you are stupid''" "dbl 0.2" "dbl 0.3" "dbl 0.99"]
    by blast
qed

subsection \<open>Repeating an analysis\<close>

lemma analyzeText_ok_results:
  "trim (hd_text s) \<noteq> [] \<Longrightarrow>
     hd_results (analyzeText FetchOk (r1, r2, r3) s) =
       newResult (hd_selectedPlatform s) (hd_text s) r1 r2 r3 # hd_results s"
  by (simp add: analyzeText_def Let_def)

lemma analyzeText_keeps_input:
  "hd_text (analyzeText fo rnd s) = hd_text s \<and>
   hd_selectedPlatform (analyzeText fo rnd s) = hd_selectedPlatform s"
  by (cases rnd) (simp add: analyzeText_def Let_def split: fetch_outcome.splits)

lemma newResult_verdict_of_scores:
  assumes "harassment_score (result (newResult p t r1 r2 r3)) =
             harassment_score (result (newResult p' t' r1' r2' r3'))"
    and "misogyny_score (result (newResult p t r1 r2 r3)) =
             misogyny_score (result (newResult p' t' r1' r2' r3'))"
    and "toxicity_score (result (newResult p t r1 r2 r3)) =
             toxicity_score (result (newResult p' t' r1' r2' r3'))"
  shows "result (newResult p t r1 r2 r3) = result (newResult p' t' r1' r2' r3') \<and>
         isFlagged (newResult p t r1 r2 r3) = isFlagged (newResult p' t' r1' r2' r3')"
  using assms by (simp add: newResult_def Let_def)

text \<open>
  C8 as stated fails on \<^verbatim>\<open>analyzeText\<close>: the scores are drawn afresh on every call and
  the reply of the endpoint is not read. Two calls in a row on the text
  \<open>I HATE you Bitch\<close>, the first with a first draw of 0.9 and the second with 0.1, leave
  two results for the same text and platform of which the older is flagged and the
  newer is not.
\<close>

theorem C8_analysis_repeatable_counterexample:
  "length (hd_results (analyzeText FetchOk (dbl 0.1, 0, 0) (analyzeText FetchOk (dbl 0.9, 0, 0)
      \<lparr>hd_text = ''I HATE you Bitch'', hd_isAnalyzing = False, hd_results = [],
       hd_selectedPlatform = ''twitter'', hd_toasts = []\<rparr>))) = 2 \<and>
   ptext (hd_results (analyzeText FetchOk (dbl 0.1, 0, 0) (analyzeText FetchOk (dbl 0.9, 0, 0)
      \<lparr>hd_text = ''I HATE you Bitch'', hd_isAnalyzing = False, hd_results = [],
       hd_selectedPlatform = ''twitter'', hd_toasts = []\<rparr>)) ! 0) =
   ptext (hd_results (analyzeText FetchOk (dbl 0.1, 0, 0) (analyzeText FetchOk (dbl 0.9, 0, 0)
      \<lparr>hd_text = ''I HATE you Bitch'', hd_isAnalyzing = False, hd_results = [],
       hd_selectedPlatform = ''twitter'', hd_toasts = []\<rparr>)) ! 1) \<and>
   \<not> isFlagged (hd_results (analyzeText FetchOk (dbl 0.1, 0, 0) (analyzeText FetchOk (dbl 0.9, 0, 0)
      \<lparr>hd_text = ''I HATE you Bitch'', hd_isAnalyzing = False, hd_results = [],
       hd_selectedPlatform = ''twitter'', hd_toasts = []\<rparr>)) ! 0) \<and>
   isFlagged (hd_results (analyzeText FetchOk (dbl 0.1, 0, 0) (analyzeText FetchOk (dbl 0.9, 0, 0)
      \<lparr>hd_text = ''I HATE you Bitch'', hd_isAnalyzing = False, hd_results = [],
       hd_selectedPlatform = ''twitter'', hd_toasts = []\<rparr>)) ! 1) \<and>
   hd_results (analyzeText FetchOk (dbl 0.1, 0, 0) (analyzeText FetchOk (dbl 0.9, 0, 0)
      \<lparr>hd_text = ''I HATE you Bitch'', hd_isAnalyzing = False, hd_results = [],
       hd_selectedPlatform = ''twitter'', hd_toasts = []\<rparr>)) ! 0 \<noteq>
   hd_results (analyzeText FetchOk (dbl 0.1, 0, 0) (analyzeText FetchOk (dbl 0.9, 0, 0)
      \<lparr>hd_text = ''I HATE you Bitch'', hd_isAnalyzing = False, hd_results = [],
       hd_selectedPlatform = ''twitter'', hd_toasts = []\<rparr>)) ! 1"
proof -
  let ?s = "\<lparr>hd_text = ''I HATE you Bitch'', hd_isAnalyzing = False, hd_results = [],
             hd_selectedPlatform = ''twitter'', hd_toasts = []\<rparr>"
  let ?a = "newResult ''twitter'' ''I HATE you Bitch'' (dbl 0.9) 0 0"
  let ?b = "newResult ''twitter'' ''I HATE you Bitch'' (dbl 0.1) 0 0"
  have ne: "trim ''I HATE you Bitch'' \<noteq> []"
    by (simp add: trim_def isWhiteSpace_def)
  have rs: "hd_results (analyzeText FetchOk (dbl 0.1, 0, 0) (analyzeText FetchOk (dbl 0.9, 0, 0) ?s)) =
              [?b, ?a]"
    using ne by (simp add: analyzeText_def Let_def)
  have a: "isFlagged ?a"
    unfolding newResult_def Let_def sim_hate_09 dbl_literals(1) by simp
  have b: "\<not> isFlagged ?b"
    unfolding newResult_def Let_def sim_hate_01 dbl_literals(1) by simp
  have t: "ptext ?a = ptext ?b"
    by (simp add: newResult_def Let_def)
  from a b have "?b \<noteq> ?a" by auto
  with a b t show ?thesis
    unfolding rs by simp
qed

text \<open>
  C8, amended. The result of a call of \<^verbatim>\<open>analyzeText\<close> is determined by the text, the
  selected platform and the three random draws of that call: two calls that agree on
  these put the same result at the head of the result list, whatever the earlier
  results and the rest of the component state are (and so also when the second call
  follows the first). The verdict in turn is determined by the scores: two results
  with equal harassment, misogyny and toxicity scores have equal \<open>is_harassment\<close>,
  \<open>is_toxic\<close> and \<open>isFlagged\<close>, whatever text, platform and draws produced them.
\<close>

theorem C8_result_determined_by_text_and_draws:
  "(trim (hd_text s) \<noteq> [] \<and> hd_text s' = hd_text s \<and>
    hd_selectedPlatform s' = hd_selectedPlatform s \<longrightarrow>
      hd_results (analyzeText FetchOk (r1, r2, r3) s) =
        newResult (hd_selectedPlatform s) (hd_text s) r1 r2 r3 # hd_results s \<and>
      hd_results (analyzeText FetchOk (r1, r2, r3) s') =
        newResult (hd_selectedPlatform s) (hd_text s) r1 r2 r3 # hd_results s') \<and>
   (trim (hd_text s) \<noteq> [] \<longrightarrow>
      hd_results (analyzeText FetchOk (r1, r2, r3) (analyzeText FetchOk (r1, r2, r3) s)) =
        newResult (hd_selectedPlatform s) (hd_text s) r1 r2 r3 #
        newResult (hd_selectedPlatform s) (hd_text s) r1 r2 r3 # hd_results s) \<and>
   (harassment_score (result (newResult p t q1 q2 q3)) =
      harassment_score (result (newResult p' t' q1' q2' q3')) \<and>
    misogyny_score (result (newResult p t q1 q2 q3)) =
      misogyny_score (result (newResult p' t' q1' q2' q3')) \<and>
    toxicity_score (result (newResult p t q1 q2 q3)) =
      toxicity_score (result (newResult p' t' q1' q2' q3')) \<longrightarrow>
      result (newResult p t q1 q2 q3) = result (newResult p' t' q1' q2' q3') \<and>
      isFlagged (newResult p t q1 q2 q3) = isFlagged (newResult p' t' q1' q2' q3'))"
proof -
  have one: "hd_results (analyzeText FetchOk (r1, r2, r3) s) =
               newResult (hd_selectedPlatform s) (hd_text s) r1 r2 r3 # hd_results s"
    if "trim (hd_text s) \<noteq> []"
    using that by (rule analyzeText_ok_results)
  have other: "hd_results (analyzeText FetchOk (r1, r2, r3) s') =
                 newResult (hd_selectedPlatform s) (hd_text s) r1 r2 r3 # hd_results s'"
    if "trim (hd_text s) \<noteq> []" "hd_text s' = hd_text s"
      "hd_selectedPlatform s' = hd_selectedPlatform s"
    using that analyzeText_ok_results [of s' r1 r2 r3] by simp
  have twice: "hd_results (analyzeText FetchOk (r1, r2, r3) (analyzeText FetchOk (r1, r2, r3) s)) =
                 newResult (hd_selectedPlatform s) (hd_text s) r1 r2 r3 #
                 newResult (hd_selectedPlatform s) (hd_text s) r1 r2 r3 # hd_results s"
    if ne: "trim (hd_text s) \<noteq> []"
  proof -
    let ?s1 = "analyzeText FetchOk (r1, r2, r3) s"
    have same: "hd_text ?s1 = hd_text s" "hd_selectedPlatform ?s1 = hd_selectedPlatform s"
      using analyzeText_keeps_input [of FetchOk "(r1, r2, r3)" s] by simp_all
    have "hd_results (analyzeText FetchOk (r1, r2, r3) ?s1) =
            newResult (hd_selectedPlatform ?s1) (hd_text ?s1) r1 r2 r3 # hd_results ?s1"
      using ne same by (intro analyzeText_ok_results) simp
    then show ?thesis
      using one [OF ne] same by simp
  qed
  show ?thesis
    using one other twice newResult_verdict_of_scores [of p t q1 q2 q3 p' t' q1' q2' q3']
    by blast
qed

theorem C8_result_determined_by_text_and_draws_witness:
  "hd_results (analyzeText FetchOk (dbl 0.5, dbl 0.5, dbl 0.5)
      \<lparr>hd_text = ''hello'', hd_isAnalyzing = False, hd_results = [],
       hd_selectedPlatform = ''twitter'', hd_toasts = []\<rparr>) =
     [newResult ''twitter'' ''hello'' (dbl 0.5) (dbl 0.5) (dbl 0.5)] \<and>
   result (newResult ''twitter'' ''bitch'' (dbl 0.4) 0 0) =
     result (newResult ''reddit'' ''hello'' (dbl 0.7) 0 0) \<and>
   isFlagged (newResult ''twitter'' ''bitch'' (dbl 0.4) 0 0) =
     isFlagged (newResult ''reddit'' ''hello'' (dbl 0.7) 0 0)"
proof -
  let ?s = "\<lparr>hd_text = ''hello'', hd_isAnalyzing = False, hd_results = [],
             hd_selectedPlatform = ''twitter'', hd_toasts = []\<rparr>"
  note t = C8_result_determined_by_text_and_draws
    [of ?s ?s "dbl 0.5" "dbl 0.5" "dbl 0.5"
        "''twitter''" "''bitch''" "dbl 0.4" 0 0 "''reddit''" "''hello''" "dbl 0.7" 0 0]
  have ne: "trim (hd_text ?s) \<noteq> []"
    by (simp add: trim_def isWhiteSpace_def)
  have eq: "harassment_score (result (newResult ''twitter'' ''bitch'' (dbl 0.4) 0 0)) =
              harassment_score (result (newResult ''reddit'' ''hello'' (dbl 0.7) 0 0)) \<and>
            misogyny_score (result (newResult ''twitter'' ''bitch'' (dbl 0.4) 0 0)) =
              misogyny_score (result (newResult ''reddit'' ''hello'' (dbl 0.7) 0 0)) \<and>
            toxicity_score (result (newResult ''twitter'' ''bitch'' (dbl 0.4) 0 0)) =
              toxicity_score (result (newResult ''reddit'' ''hello'' (dbl 0.7) 0 0))"
    by (simp add: newResult_def simulatedResult_def Let_def toLowerCase_samples mult.commute dbl_0)
  have "hd_results (analyzeText FetchOk (dbl 0.5, dbl 0.5, dbl 0.5) ?s) =
          newResult (hd_selectedPlatform ?s) (hd_text ?s) (dbl 0.5) (dbl 0.5) (dbl 0.5) #
          hd_results ?s"
    using t ne by blast
  moreover have "result (newResult ''twitter'' ''bitch'' (dbl 0.4) 0 0) =
                   result (newResult ''reddit'' ''hello'' (dbl 0.7) 0 0) \<and>
                 isFlagged (newResult ''twitter'' ''bitch'' (dbl 0.4) 0 0) =
                   isFlagged (newResult ''reddit'' ''hello'' (dbl 0.7) 0 0)"
    using t eq by blast
  ultimately show ?thesis
    by simp
qed

subsection \<open>The text boxes of BatchAnalysisDemo\<close>

lemma spread_no_hole: "Hole \<notin> set xs \<Longrightarrow> spread xs = xs"
  by (induction xs) (auto simp: spread_def)

lemma length_remove_at:
  "Hole \<notin> set xs \<Longrightarrow>
   length (filter (\<lambda>(i, x). x \<noteq> Hole \<and> i \<noteq> index) (enumerate n xs)) =
     (if n \<le> index \<and> index < n + length xs then length xs - 1 else length xs)"
proof (induction xs arbitrary: n)
  case Nil
  then show ?case by simp
next
  case (Cons x xs)
  then have ih:
    "length (filter (\<lambda>(i, x). x \<noteq> Hole \<and> i \<noteq> index) (enumerate (Suc n) xs)) =
       (if Suc n \<le> index \<and> index < Suc n + length xs then length xs - 1 else length xs)"
    by simp
  from Cons.prems have "x \<noteq> Hole" by auto
  then show ?case using ih by (cases xs) auto
qed

lemma set_remove_at: "set (map snd (filter P (enumerate n xs))) \<subseteq> set xs"
  by (auto simp: in_set_enumerate_eq)

lemma texts_ok_remove:
  assumes "texts_ok (bd_texts s)"
  shows "texts_ok (bd_texts (removeTextBox index s))"
proof (cases "length (bd_texts s) > 1")
  case False
  then show ?thesis using assms by (simp add: removeTextBox_def)
next
  case True
  let ?ys = "map snd (filter (\<lambda>(i, x). x \<noteq> Hole \<and> i \<noteq> index) (enumerate 0 (bd_texts s)))"
  have nh: "Hole \<notin> set (bd_texts s)"
    using assms by (simp add: texts_ok_def)
  have "length ?ys =
          (if index < length (bd_texts s) then length (bd_texts s) - 1 else length (bd_texts s))"
    using length_remove_at [OF nh, of index 0] by simp
  moreover have "Hole \<notin> set ?ys"
    using set_remove_at [of _ 0 "bd_texts s"] nh by blast
  ultimately have "texts_ok ?ys"
    using True assms by (auto simp: texts_ok_def)
  then show ?thesis using True by (simp add: removeTextBox_def)
qed

lemma texts_ok_add: "texts_ok (bd_texts s) \<Longrightarrow> texts_ok (bd_texts (addTextBox s))"
  by (auto simp: addTextBox_def texts_ok_def spread_no_hole)

lemma texts_ok_update:
  "texts_ok (bd_texts s) \<Longrightarrow> index < length (bd_texts s) \<Longrightarrow>
     texts_ok (bd_texts (updateText index v s))"
  by (auto simp: updateText_def texts_ok_def spread_no_hole Let_def
      dest: set_update_subset_insert [THEN subsetD])

lemma texts_ok_load: "texts_ok (bd_texts (loadSampleData s))"
  by (simp add: loadSampleData_def texts_ok_def)

lemma texts_ok_clear: "texts_ok (bd_texts (clearAll s))"
  by (simp add: clearAll_def texts_ok_def)

lemma texts_handleBatchAnalysis: "bd_texts (handleBatchAnalysis api s) = bd_texts s"
  by (simp add: handleBatchAnalysis_def Let_def split: outcome.splits)

lemma reachable_texts_ok: "reachable s \<Longrightarrow> texts_ok (bd_texts s)"
proof (induction rule: reachable.induct)
  case r_init
  show ?case by (simp add: batch_demo_init_def texts_ok_def)
next
  case (r_add s)
  then show ?case by (simp add: texts_ok_add)
next
  case (r_remove s index)
  then show ?case by (simp add: texts_ok_remove)
next
  case (r_update s index v)
  then show ?case by (simp add: texts_ok_update)
next
  case (r_load s)
  show ?case by (rule texts_ok_load)
next
  case (r_clear s)
  show ?case by (rule texts_ok_clear)
next
  case (r_analyze s api)
  then show ?case by (simp add: texts_handleBatchAnalysis)
qed

text \<open>
  Written past the end, \<open>updateText\<close> would grow the array; the rendering never does so.
\<close>

lemma updateText_out_of_range:
  "length (bd_texts (updateText 11 ''x'' batch_demo_init)) = 12"
  by (simp add: updateText_def batch_demo_init_def spread_def Let_def)

lemma reachable_adds: "reachable ((addTextBox ^^ n) batch_demo_init)"
  by (induction n) (auto intro: reachable.intros)

text \<open>
  C9. Every reachable state of the component holds between 1 and 10 text boxes. In
  such a state \<open>addTextBox\<close> does not take the list beyond 10, \<open>removeTextBox\<close> (at any
  index) does not take it below 1, and \<open>clearAll\<close> and \<open>loadSampleData\<close> reset it to 1 and
  5 boxes.
\<close>

theorem C9_text_boxes_bounded:
  assumes "reachable s"
  shows "1 \<le> length (bd_texts s) \<and> length (bd_texts s) \<le> 10 \<and>
         length (bd_texts (addTextBox s)) \<le> 10 \<and>
         1 \<le> length (bd_texts (removeTextBox index s)) \<and>
         length (bd_texts (clearAll s)) = 1 \<and>
         length (bd_texts (loadSampleData s)) = 5"
proof -
  have ok: "texts_ok (bd_texts s)"
    using assms by (rule reachable_texts_ok)
  have "texts_ok (bd_texts (addTextBox s))" "texts_ok (bd_texts (removeTextBox index s))"
    using ok by (simp_all add: texts_ok_add texts_ok_remove)
  then show ?thesis
    using ok by (simp add: texts_ok_def clearAll_def loadSampleData_def)
qed

theorem C9_text_boxes_bounded_witness:
  "reachable ((addTextBox ^^ 12) batch_demo_init) \<and>
   1 \<le> length (bd_texts ((addTextBox ^^ 12) batch_demo_init)) \<and>
   length (bd_texts ((addTextBox ^^ 12) batch_demo_init)) \<le> 10 \<and>
   1 \<le> length (bd_texts (removeTextBox 0 ((addTextBox ^^ 12) batch_demo_init)))"
  using C9_text_boxes_bounded [OF reachable_adds [of 12], of 0] reachable_adds [of 12]
  by simp

subsection \<open>Job statistics of FileUploadDemo\<close>

text \<open>
  With no statistics from the backend and at least one result, the percentage is the
  share of flagged items times 100 (quotient and product each rounded to a double),
  printed with one fractional digit.
\<close>

lemma getJobStats_fallback:
  "rs \<noteq> [] \<Longrightarrow>
     getJobStats (Some \<lparr>jobId = j, status = st, progress = p, results = Some rs,
                        statistics = None, job_error = e\<rparr>) =
     Some \<lparr>st_total = real (length rs),
           st_toxic = real (length (filter (\<lambda>item. resp_is_harassment item \<or> resp_is_toxic item) rs)),
           st_safe = dbl (real (length rs) -
             real (length (filter (\<lambda>item. resp_is_harassment item \<or> resp_is_toxic item) rs))),
           st_toxicPercentage =
             toFixed 1 (Num (dbl (dbl (real (length (filter (\<lambda>item. resp_is_harassment item \<or>
                                                           resp_is_toxic item) rs)) /
                                       real (length rs)) * 100)))\<rparr>"
  by (simp add: getJobStats_def js_div_def js_times_def Let_def)

text \<open>
  What the engine prints: 23 flagged of 80 is 28.749999999999996 and prints as
  \<open>28.7\<close>; the literal 0.15 prints as \<open>0.1\<close>; 0.5625 / 125 prints as \<open>0.004\<close>.
\<close>

lemma percentage_samples:
  "js_times (js_div 23 80) 100 = Num (8092405580431359 / 281474976710656)"
  "js_times (js_div 1 3) 100 = Num (2345624805922133 / 70368744177664)"
  "js_div (dbl 0.5625) 125 = Num (5188146770730811 / 1152921504606846976)"
  "dbl 0.15 = 5404319552844595 / 36028797018963968"
  by (simp_all add: js_div_def js_times_def dbl_eval)

lemma toFixed_samples:
  "toFixed 1 (js_times (js_div 23 80) 100) = ''28.7''"
  "toFixed 1 (js_times (js_div 1 3) 100) = ''33.3''"
  "toFixed 1 (Num (dbl 0.15)) = ''0.1''"
  "toFixed 1 (Num 50) = ''50.0''"
  "toFixed 1 (Num 0) = ''0.0''"
  unfolding percentage_samples by (simp_all add: toFixed_def fixed_def pad_left_def)

lemma toFixed_average_sample: "toFixed 3 (js_div (dbl 0.5625) 125) = ''0.004''"
proof -
  have "replicate 2 (CHR ''0'') = ''00''"
    by (simp add: numeral_2_eq_2)
  then show ?thesis
    unfolding percentage_samples by (simp add: toFixed_def fixed_def pad_left_def)
qed

lemma getOverallStats_empty: "getOverallStats [] = None"
  by (simp add: getOverallStats_def)

text \<open>
  C5, where the code departs from it. For a completed job whose snapshot carries an
  empty \<open>results\<close> array and no \<open>statistics\<close>, the fallback of \<^verbatim>\<open>getJobStats\<close> divides
  zero by zero and prints \<open>NaN\<close> as the percentage, not \<open>0.0\<close>.
\<close>

theorem C5_getJobStats_empty_results:
  "getJobStats (Some \<lparr>jobId = ''job-1'', status = Completed, progress = 100,
                     results = Some [], statistics = None, job_error = None\<rparr>) =
     Some \<lparr>st_total = 0, st_toxic = 0, st_safe = 0, st_toxicPercentage = ''NaN''\<rparr>"
  by (simp add: getJobStats_def js_div_def js_times_def toFixed_def dbl_0)

subsection \<open>The CSV export of BatchAnalysisDemo\<close>

lemma exportResults_rows:
  "rs \<noteq> [] \<Longrightarrow>
     exportResults num rs = Some (join [CHR 0x0A] (export_header # map (export_row num) rs))"
  by (simp add: exportResults_def)

text \<open>
  C6, where the code departs from it. The text column is written between double quotes
  as it is, an embedded double quote is not doubled. So a single result whose text
  holds quotes, commas and a line feed exports to exactly the file of two plain results
  \<open>a\<close> and \<open>b\<close>: the text cannot be read back from the export.
\<close>

theorem C6_export_does_not_escape_text:
  "exportResults num
     [\<lparr>resp_text = ''a'' @ dq @ '','' @ dq @ ''low'' @ dq @ '','' @ dq @ ''false'' @ dq @ '','' @
                    dq @ num 0 @ dq @ '','' @ dq @ num 0 @ dq @ '','' @ dq @ dq @ [CHR 0x0A] @
                    dq @ ''b'',
       resp_toxicity_scores = \<lparr>harassment = 0, misogyny = 0, combined = 0\<rparr>,
       resp_is_toxic = False, resp_is_harassment = False, resp_riskLevel = Low,
       resp_flagged_categories = []\<rparr>] =
   exportResults num
     [\<lparr>resp_text = ''a'',
       resp_toxicity_scores = \<lparr>harassment = 0, misogyny = 0, combined = 0\<rparr>,
       resp_is_toxic = False, resp_is_harassment = False, resp_riskLevel = Low,
       resp_flagged_categories = []\<rparr>,
      \<lparr>resp_text = ''b'',
       resp_toxicity_scores = \<lparr>harassment = 0, misogyny = 0, combined = 0\<rparr>,
       resp_is_toxic = False, resp_is_harassment = False, resp_riskLevel = Low,
       resp_flagged_categories = []\<rparr>]"
  by (simp add: exportResults_def export_row_def riskLevel_str_def bool_str_def)

subsection \<open>File selection\<close>

lemma split_on_nonempty: "split_on sep s \<noteq> []"
  by (induction s) (auto split: list.splits)

lemma split_on_no_sep: "sep \<notin> set s \<Longrightarrow> split_on sep s = [s]"
  by (induction s) (auto split: list.splits)

lemma split_on_single: "split_on sep s = [x] \<Longrightarrow> sep \<notin> set s"
proof (induction s arbitrary: x)
  case Nil
  then show ?case by simp
next
  case (Cons c cs)
  show ?case
  proof (cases "c = sep")
    case True
    with Cons.prems have "split_on sep cs = []" by simp
    then show ?thesis using split_on_nonempty by blast
  next
    case False
    obtain seg segs where sp: "split_on sep cs = seg # segs"
      using split_on_nonempty [of sep cs] by (cases "split_on sep cs") auto
    with Cons.prems False have "segs = []" by simp
    with sp Cons.IH have "sep \<notin> set cs" by simp
    with False show ?thesis by simp
  qed
qed

lemma takeWhile_snoc:
  "takeWhile P (xs @ [y]) = (if (\<forall>x\<in>set xs. P x) \<and> P y then xs @ [y] else takeWhile P xs)"
  by (induction xs) auto

lemma split_on_last: "last (split_on sep s) = rev (takeWhile (\<lambda>c. c \<noteq> sep) (rev s))"
proof (induction s)
  case Nil
  then show ?case by simp
next
  case (Cons c cs)
  obtain seg segs where sp: "split_on sep cs = seg # segs"
    using split_on_nonempty [of sep cs] by (cases "split_on sep cs") auto
  show ?case
  proof (cases "c = sep")
    case True
    have "last (split_on sep (c # cs)) = last (split_on sep cs)"
      using True sp by simp
    moreover have "takeWhile (\<lambda>c. c \<noteq> sep) (rev (c # cs)) = takeWhile (\<lambda>c. c \<noteq> sep) (rev cs)"
      using True by (simp add: takeWhile_snoc)
    ultimately show ?thesis using Cons.IH by simp
  next
    case False
    show ?thesis
    proof (cases "sep \<in> set cs")
      case True
      then have "segs \<noteq> []"
        using sp split_on_single [of sep cs seg] by auto
      then have "last (split_on sep (c # cs)) = last (split_on sep cs)"
        using False sp by simp
      moreover have "takeWhile (\<lambda>c. c \<noteq> sep) (rev (c # cs)) = takeWhile (\<lambda>c. c \<noteq> sep) (rev cs)"
        using True by (auto simp add: takeWhile_snoc)
      ultimately show ?thesis using Cons.IH by simp
    next
      case nosep: False
      have "split_on sep (c # cs) = [c # cs]"
        using nosep False by (intro split_on_no_sep) simp
      then have l: "last (split_on sep (c # cs)) = c # cs"
        by (simp del: split_on.simps)
      have "takeWhile (\<lambda>c. c \<noteq> sep) (rev cs @ [c]) = rev cs @ [c]"
        using nosep False by (simp add: takeWhile_snoc)
      then have "rev (takeWhile (\<lambda>c. c \<noteq> sep) (rev (c # cs))) = c # cs"
        by simp
      with l show ?thesis by (simp only:)
    qed
  qed
qed

text \<open>
  The extension the handler computes: a dot, then the lower-cased part of the name after
  its last dot, and the whole lower-cased name when the name has no dot at all.
\<close>

lemma fileExtension_eq:
  "fileExtension nm = ''.'' @ toLowerCase (rev (takeWhile (\<lambda>c. c \<noteq> CHR ''.'') (rev nm)))"
proof -
  obtain x xs where r: "rev (split_on (CHR ''.'') nm) = x # xs"
    using split_on_nonempty [of "CHR ''.''" nm] by (cases "rev (split_on (CHR ''.'') nm)") auto
  then have "rev (rev (split_on (CHR ''.'') nm)) = rev (x # xs)" by simp
  then have "last (split_on (CHR ''.'') nm) = x" by simp
  then show ?thesis using r by (simp add: fileExtension_def split_on_last [symmetric])
qed

lemma handleFileSelect_accepted:
  "accepted f \<Longrightarrow> handleFileSelect (Some f) s = s\<lparr>fu_file := Some f, fu_error := None\<rparr>"
  by (auto simp: handleFileSelect_def accepted_def MAX_FILE_SIZE_def)

lemma handleFileSelect_rejected:
  "\<not> accepted f \<Longrightarrow> \<exists>msg. handleFileSelect (Some f) s = s\<lparr>fu_error := Some msg\<rparr>"
  by (auto simp: handleFileSelect_def accepted_def MAX_FILE_SIZE_def)

text \<open>For a name with a dot the test is the one on its extension and its size.\<close>

lemma accepted_dotted:
  "after_last_dot (file_name f) = Some e \<Longrightarrow>
     accepted f \<longleftrightarrow> toLowerCase e \<in> {''txt'', ''csv''} \<and> file_size f \<le> 10 * 1024 * 1024"
  by (auto simp: accepted_def fileExtension_eq after_last_dot_def MAX_FILE_SIZE_def
      split: if_splits)

lemma toLowerCase_txt: "toLowerCase ''txt'' = ''txt''"
  by code_simp

text \<open>
  C10, where the code departs from it. A file named \<open>txt\<close> has no dot and so no
  extension, but \<open>split('.').pop()\<close> then yields the whole name: the handler takes the
  file and clears the error that was showing.
\<close>

theorem C10_accepts_name_without_extension:
  "after_last_dot ''txt'' = None \<and>
   handleFileSelect (Some \<lparr>file_name = ''txt'', file_size = 10, file_type = []\<rparr>)
     (upload_demo_init\<lparr>fu_error := Some ''Please select a .txt or .csv file''\<rparr>) =
   upload_demo_init\<lparr>fu_file := Some \<lparr>file_name = ''txt'', file_size = 10, file_type = []\<rparr>,
                    fu_error := None\<rparr>"
  by (simp add: handleFileSelect_def fileExtension_def toLowerCase_txt after_last_dot_def
      upload_demo_init_def)

subsection \<open>Polling\<close>












end
